theory Spec2Isabelle
  imports Main "HOL-Library.Sublist" "HOL-Library.Char_ord" "HOL-Library.List_Lexorder"
begin

section \<open>Strings\<close>

text \<open>
  Go strings are byte sequences; they are modelled as \<open>string\<close> (a list of characters).
  \<open>strings.Contains s sub\<close> holds when \<open>sub\<close> occurs in \<open>s\<close> as a contiguous run,
  \<open>strings.HasSuffix\<close> and \<open>strings.TrimPrefix\<close> are the usual ones.
\<close>

fun Contains :: "string \<Rightarrow> string \<Rightarrow> bool" where
  "Contains [] sub = (sub = [])"
| "Contains (c # s) sub = (prefix sub (c # s) \<or> Contains s sub)"

definition HasSuffix :: "string \<Rightarrow> string \<Rightarrow> bool" where
  "HasSuffix s suf = suffix suf s"

definition TrimPrefix :: "string \<Rightarrow> string \<Rightarrow> string" where
  "TrimPrefix s pre = (if prefix pre s then drop (length pre) s else s)"

section \<open>Errors\<close>

text \<open>
  Every error return of the source, and every panic (a nil pointer dereference), is a
  value of this type. An operation on the file system returns the error, if any, together
  with the file system it leaves behind.
\<close>

record Version =
  Path :: string
  Version :: string

datatype error =
    NotAGoWorkspace
  | ErrNotExist
  | ReadError
  | ParseError
  | ReplacementExists Version
  | RelError
  | NilPointerDereference

section \<open>The manifest data of golang.org/x/mod\<close>

text \<open>
  \<open>module.Version\<close> (above) is a pair of a module path and a version; the key of a
  replace entry is its \<open>Old\<close> version, its target the \<open>New\<close> one.

  \<open>modfile.Line\<close>: the tokens of the line (for a replace line the old and the new
  version it prints, for a use line the directory), the tokens of its trailing (suffix)
  comments, and the \<open>InBlock\<close> flag. A \<open>*modfile.Line\<close> may be nil, hence
  \<open>Line option\<close> wherever the source holds the pointer.
\<close>

record 't Line =
  Token :: 't
  Suffix :: "string list"
  InBlock :: bool

record Replace =
  Old :: Version
  New :: Version
  Syntax :: "(Version \<times> Version) Line option"

record File =
  Module :: "string option"
  Replace :: "Replace list"

record Use =
  UsePath :: string
  ModulePath :: string
  UseSyntax :: "string Line option"

record WorkFile =
  Use :: "Use list"

text \<open>
  The files on disk. A manifest file is kept in parsed form: the module path of its
  module directive (if it has one) and its replace lines, in file order; a workspace
  manifest by its use lines. Directives no operation of the engine looks at are not
  represented, nor is the layout of statements into blocks. \<open>os.ReadFile\<close> fails on a
  missing file, \<open>modfile.Parse\<close> fails on anything that is not a module manifest and
  \<open>modfile.ParseWork\<close> on anything that is not a workspace manifest.
\<close>

datatype content =
    GoModFile "string option" "(Version \<times> Version) Line list"
  | GoWorkFile "string Line list"
  | Unparsable

type_synonym FS = "string \<rightharpoonup> content"

definition zeroVersion :: Version where
  "zeroVersion = \<lparr>Path = [], Version = []\<rparr>"

definition zeroReplace :: Replace where
  "zeroReplace = \<lparr>Old = zeroVersion, New = zeroVersion, Syntax = None\<rparr>"

definition zeroUse :: Use where
  "zeroUse = \<lparr>UsePath = [], ModulePath = [], UseSyntax = None\<rparr>"

definition parseReplaceLine :: "(Version \<times> Version) Line \<Rightarrow> Replace" where
  "parseReplaceLine l = \<lparr>Old = fst (Token l), New = snd (Token l), Syntax = Some l\<rparr>"

definition Parse :: "content \<Rightarrow> error + File" where
  "Parse c =
     (case c of
        GoModFile m ls \<Rightarrow> Inr \<lparr>Module = m, Replace = map parseReplaceLine ls\<rparr>
      | GoWorkFile ls \<Rightarrow> Inl ParseError
      | Unparsable \<Rightarrow> Inl ParseError)"

definition parseUseLine :: "string Line \<Rightarrow> Use" where
  "parseUseLine l = \<lparr>UsePath = Token l, ModulePath = [], UseSyntax = Some l\<rparr>"

definition ParseWork :: "content \<Rightarrow> error + WorkFile" where
  "ParseWork c =
     (case c of
        GoWorkFile ls \<Rightarrow> Inr \<lparr>Use = map parseUseLine ls\<rparr>
      | GoModFile m ls \<Rightarrow> Inl ParseError
      | Unparsable \<Rightarrow> Inl ParseError)"

text \<open>
  \<open>Cleanup\<close> followed by \<open>Format\<close>: \<open>Cleanup\<close> takes the zeroed entries out of the
  entry list and the removed lines out of the syntax tree, and \<open>Format\<close> prints the
  syntax tree, that is the line of every entry that still has one.
\<close>

definition Format :: "File \<Rightarrow> content" where
  "Format f = GoModFile (Module f) (List.map_filter Syntax (Replace f))"

definition FormatWork :: "WorkFile \<Rightarrow> content" where
  "FormatWork w = GoWorkFile (List.map_filter UseSyntax (Use w))"

text \<open>
  \<open>File.DropReplace\<close> zeroes every entry with the given key (\<open>*r = Replace{}\<close>) and
  marks its line removed; the slice keeps its length. Marking the line of an entry that
  has none (an entry zeroed before) is a nil dereference; otherwise the call returns nil.
\<close>

definition DropReplace :: "File \<Rightarrow> string \<Rightarrow> string \<Rightarrow> error + File" where
  "DropReplace f oldPath oldVers =
     (if list_ex (\<lambda>r. Path (Old r) = oldPath \<and> Version (Old r) = oldVers \<and> Syntax r = None)
           (Replace f)
      then Inl NilPointerDereference
      else Inr (f\<lparr>Replace :=
                  map (\<lambda>r. if Path (Old r) = oldPath \<and> Version (Old r) = oldVers
                            then zeroReplace else r)
                    (Replace f)\<rparr>))"

text \<open>
  \<open>File.AddReplace\<close>. Its loop updates the first entry for the old path (any version of
  it when \<open>oldVers\<close> is empty, else that version) to the new target, rewriting the
  tokens of its line but leaving the entry's \<open>Old\<close> as it is, and zeroes every later one;
  the flag \<open>need\<close> says whether an entry is still to be found. Only when none was found
  is a new entry appended, on a new line without comments. Touching the line of an entry
  that has none is a nil dereference.
\<close>

fun AddReplace_loop ::
  "Version \<Rightarrow> Version \<Rightarrow> bool \<Rightarrow> Replace list \<Rightarrow> error + (Replace list \<times> bool)" where
  "AddReplace_loop old new need [] = Inr ([], need)"
| "AddReplace_loop old new need (r # rs) =
     (if Path (Old r) = Path old \<and> (Version old = [] \<or> Version (Old r) = Version old) then
        (case Syntax r of
           None \<Rightarrow> Inl NilPointerDereference
         | Some l \<Rightarrow>
             (case AddReplace_loop old new False rs of
                Inl e \<Rightarrow> Inl e
              | Inr (rs', need') \<Rightarrow>
                  Inr ((if need then r\<lparr>New := new, Syntax := Some (l\<lparr>Token := (old, new)\<rparr>)\<rparr>
                        else zeroReplace) # rs', need')))
      else
        (case AddReplace_loop old new need rs of
           Inl e \<Rightarrow> Inl e
         | Inr (rs', need') \<Rightarrow> Inr (r # rs', need')))"

definition AddReplace :: "File \<Rightarrow> string \<Rightarrow> string \<Rightarrow> string \<Rightarrow> string \<Rightarrow> error + File" where
  "AddReplace f oldPath oldVers newPath newVers =
     (let old = \<lparr>Path = oldPath, Version = oldVers\<rparr>;
          new = \<lparr>Path = newPath, Version = newVers\<rparr>
      in case AddReplace_loop old new True (Replace f) of
           Inl e \<Rightarrow> Inl e
         | Inr (rs, need) \<Rightarrow>
             Inr (f\<lparr>Replace :=
                     (if need then
                        rs @ [\<lparr>Old = old, New = new,
                               Syntax = Some \<lparr>Token = (old, new), Suffix = [], InBlock = False\<rparr>\<rparr>]
                      else rs)\<rparr>))"

text \<open>\<open>WorkFile.DropUse\<close> and \<open>WorkFile.AddNewUse\<close>, in the same way.\<close>

definition DropUse :: "WorkFile \<Rightarrow> string \<Rightarrow> error + WorkFile" where
  "DropUse w path =
     (if list_ex (\<lambda>d. UsePath d = path \<and> UseSyntax d = None) (Use w)
      then Inl NilPointerDereference
      else Inr (w\<lparr>Use := map (\<lambda>d. if UsePath d = path then zeroUse else d) (Use w)\<rparr>))"

definition AddNewUse :: "WorkFile \<Rightarrow> string \<Rightarrow> string \<Rightarrow> WorkFile" where
  "AddNewUse w diskPath modulePath =
     w\<lparr>Use := Use w @
         [\<lparr>UsePath = diskPath, ModulePath = modulePath,
           UseSyntax = Some \<lparr>Token = diskPath, Suffix = [], InBlock = False\<rparr>\<rparr>]\<rparr>"

section \<open>The ownership classifier\<close>

datatype blazedockReplaceType =
  blazedockReplaceDirect | blazedockReplaceIndirect | blazedockReplaceIgnore

text \<open>
  The loop of \<open>isBlazedockReplace\<close> over \<open>rep.Suffix\<close> returns at the first comment
  whose token contains the marker; when it finds none the result is
  \<open>(false, blazedockReplaceDirect)\<close>.
\<close>

fun isBlazedockSuffix :: "string list \<Rightarrow> bool \<times> blazedockReplaceType" where
  "isBlazedockSuffix [] = (False, blazedockReplaceDirect)"
| "isBlazedockSuffix (c # cs) =
     (if Contains c ''blazedock'' then
        (True,
         if Contains c '' indirect '' then blazedockReplaceIndirect
         else if Contains c '' ignore '' then blazedockReplaceIgnore
         else blazedockReplaceDirect)
      else isBlazedockSuffix cs)"

fun isBlazedockReplace :: "'t Line option \<Rightarrow> bool \<times> blazedockReplaceType" where
  "isBlazedockReplace None = (False, blazedockReplaceIgnore)"
| "isBlazedockReplace (Some rep) = isBlazedockSuffix (Suffix rep)"


text \<open>
  The entries that teardown removes and that \<open>addReplace\<close> may overwrite are those the
  classifier reports as owned with a sub-kind other than ignore; this is the test
  \<open>ok && tpe != blazedockReplaceIgnore\<close> of the source.
\<close>

definition ownedNotIgnore :: "'t Line option \<Rightarrow> bool" where
  "ownedNotIgnore rep =
     (case isBlazedockReplace rep of (ok, tpe) \<Rightarrow> ok \<and> tpe \<noteq> blazedockReplaceIgnore)"

section \<open>Packages and workspaces\<close>

text \<open>
  What the engine reads of a package: its full name, its type, the origin directory of
  its component, its source files and its transitive dependencies (computed elsewhere).
  A workspace has an origin directory and its packages by name; Go iterates over that
  map in no fixed order, so the packages are a list in whatever order the iteration takes.
\<close>

datatype PackageType = GoPackage | YarnPackage | DockerPackage | GenericPackage

datatype Package =
  Package (FullName: string) (Type: PackageType) (C_Origin: string)
    (Sources: "string list") (GetTransitiveDependencies: "Package list")

record Workspace =
  Origin :: string
  Packages :: "(string \<times> Package) list"

record goModule =
  Name :: string
  OriginPath :: string
  OriginPackage :: string
  Replacements :: "Replace list"

section \<open>Rewriting one manifest\<close>

text \<open>
  The first source file whose name ends in \<open>go.mod\<close>; the source's \<open>goModFn == ""\<close>
  is \<open>None\<close> here.
\<close>

definition findGoMod :: "string list \<Rightarrow> string option" where
  "findGoMod srcs = find (\<lambda>f. HasSuffix f ''go.mod'') srcs"

text \<open>
  \<open>modifyGoMod\<close> reads and parses the manifest, applies \<open>modf\<close> (the source's \<open>mod\<close>) to it, and writes the
  result back; any error before the write leaves the file system as it was.
\<close>

definition modifyGoMod ::
  "FS \<Rightarrow> Package \<Rightarrow> (string \<Rightarrow> File \<Rightarrow> error + File) \<Rightarrow> error option \<times> FS" where
  "modifyGoMod fs dst modf =
     (case findGoMod (Sources dst) of
        None \<Rightarrow> (Some ErrNotExist, fs)
      | Some goModFn \<Rightarrow>
          (case fs goModFn of
             None \<Rightarrow> (Some ReadError, fs)
           | Some fc \<Rightarrow>
               (case Parse fc of
                  Inl e \<Rightarrow> (Some e, fs)
                | Inr gomod \<Rightarrow>
                    (case modf goModFn gomod of
                       Inl e \<Rightarrow> (Some e, fs)
                     | Inr gomod' \<Rightarrow> (None, fs(goModFn \<mapsto> Format gomod'))))))"

text \<open>
  The loop of \<open>removeBlazedockReplaceRules\<close> ranges over the slice of entry pointers;
  \<open>DropReplace\<close> zeroes entries in place, so each iteration reads the entry as it is
  by then. The list of indices still to visit is the loop counter.
\<close>

fun dropBlazedockReplaces :: "nat list \<Rightarrow> File \<Rightarrow> error + File" where
  "dropBlazedockReplaces [] gomod = Inr gomod"
| "dropBlazedockReplaces (i # is) gomod =
     (let rep = Replace gomod ! i in
      case isBlazedockReplace (Syntax rep) of
        (ok, tpe) \<Rightarrow>
          if \<not> ok \<or> tpe = blazedockReplaceIgnore then dropBlazedockReplaces is gomod
          else
            (case DropReplace gomod (Path (Old rep)) (Version (Old rep)) of
               Inl e \<Rightarrow> Inl e
             | Inr gomod' \<Rightarrow> dropBlazedockReplaces is gomod'))"

definition removeBlazedockReplaceRules :: "FS \<Rightarrow> Package \<Rightarrow> error option \<times> FS" where
  "removeBlazedockReplaceRules fs dst =
     modifyGoMod fs dst
       (\<lambda>_ gomod. dropBlazedockReplaces [0 ..< length (Replace gomod)] gomod)"

text \<open>
  \<open>addReplace\<close>, first loop: an entry with the key that the engine owns (and that is not
  an ignore entry) is dropped, any other entry with the key is an error.
\<close>

fun dropExisting :: "Version \<Rightarrow> nat list \<Rightarrow> File \<Rightarrow> error + File" where
  "dropExisting old [] gomod = Inr gomod"
| "dropExisting old (i # is) gomod =
     (let rep = Replace gomod ! i in
      if Path (Old rep) \<noteq> Path old \<or> Version (Old rep) \<noteq> Version old then
        dropExisting old is gomod
      else
        (case isBlazedockReplace (Syntax rep) of
           (ok, tpe) \<Rightarrow>
             if ok \<and> tpe \<noteq> blazedockReplaceIgnore then
               (case DropReplace gomod (Path old) (Version old) of
                  Inl e \<Rightarrow> Inl e
                | Inr gomod' \<Rightarrow> dropExisting old is gomod')
             else Inl (ReplacementExists old)))"

text \<open>
  \<open>addReplace\<close>, last loop: every entry with the key gets the comment as its only
  suffix comment and is flagged as in a block.
\<close>

fun setComment :: "Version \<Rightarrow> string \<Rightarrow> Replace list \<Rightarrow> error + Replace list" where
  "setComment old comment [] = Inr []"
| "setComment old comment (rep # reps) =
     (if Path (Old rep) = Path old \<and> Version (Old rep) = Version old then
        (case Syntax rep of
           None \<Rightarrow> Inl NilPointerDereference
         | Some l \<Rightarrow>
             (case setComment old comment reps of
                Inl e \<Rightarrow> Inl e
              | Inr reps' \<Rightarrow>
                  Inr (rep\<lparr>Syntax := Some (l\<lparr>InBlock := True, Suffix := [comment]\<rparr>)\<rparr> # reps')))
      else
        (case setComment old comment reps of
           Inl e \<Rightarrow> Inl e
         | Inr reps' \<Rightarrow> Inr (rep # reps')))"

definition addReplace :: "File \<Rightarrow> Version \<Rightarrow> Version \<Rightarrow> bool \<Rightarrow> string \<Rightarrow> error + File" where
  "addReplace gomod old new direct source =
     (case dropExisting old [0 ..< length (Replace gomod)] gomod of
        Inl e \<Rightarrow> Inl e
      | Inr gomod1 \<Rightarrow>
          (case AddReplace gomod1 (Path old) (Version old) (Path new) (Version new) of
             Inl e \<Rightarrow> Inl e
           | Inr gomod2 \<Rightarrow>
               (let comment =
                      (if direct then ''// blazedock''
                       else ''// blazedock'' @ '' indirect from '' @ source)
                in case setComment old comment (Replace gomod2) of
                     Inl e \<Rightarrow> Inl e
                   | Inr reps \<Rightarrow> Inr (gomod2\<lparr>Replace := reps\<rparr>))))"

text \<open>
  \<open>linkGoModule\<close>. \<open>filepath.Rel\<close> and \<open>filepath.Dir\<close> are parameters (\<open>Rel\<close>,
  \<open>Dir\<close>): whatever they compute, the properties below hold. The first loop adds the
  direct entries, the second replays the overrides of each module.
\<close>

fun addDirect ::
  "(string \<Rightarrow> string \<Rightarrow> error + string) \<Rightarrow> (string \<Rightarrow> string) \<Rightarrow> string \<Rightarrow>
   goModule list \<Rightarrow> File \<Rightarrow> error + File" where
  "addDirect Rel Dir goModFN [] gomod = Inr gomod"
| "addDirect Rel Dir goModFN (m # mods) gomod =
     (case Rel (Dir goModFN) (OriginPath m) of
        Inl e \<Rightarrow> Inl e
      | Inr relpath \<Rightarrow>
          (case addReplace gomod \<lparr>Path = Name m, Version = []\<rparr> \<lparr>Path = relpath, Version = []\<rparr>
                  True (OriginPackage m) of
             Inl e \<Rightarrow> Inl e
           | Inr gomod' \<Rightarrow> addDirect Rel Dir goModFN mods gomod'))"

fun addReplacements :: "string \<Rightarrow> Replace list \<Rightarrow> File \<Rightarrow> error + File" where
  "addReplacements source [] gomod = Inr gomod"
| "addReplacements source (r # rs) gomod =
     (case addReplace gomod (Old r) (New r) False source of
        Inl e \<Rightarrow> Inl e
      | Inr gomod' \<Rightarrow> addReplacements source rs gomod')"

fun addIndirect :: "goModule list \<Rightarrow> File \<Rightarrow> error + File" where
  "addIndirect [] gomod = Inr gomod"
| "addIndirect (m # mods) gomod =
     (case addReplacements (OriginPackage m) (Replacements m) gomod of
        Inl e \<Rightarrow> Inl e
      | Inr gomod' \<Rightarrow> addIndirect mods gomod')"

definition linkGoModule ::
  "(string \<Rightarrow> string \<Rightarrow> error + string) \<Rightarrow> (string \<Rightarrow> string) \<Rightarrow>
   FS \<Rightarrow> Package \<Rightarrow> goModule list \<Rightarrow> error option \<times> FS" where
  "linkGoModule Rel Dir fs dst mods =
     (case removeBlazedockReplaceRules fs dst of
        (Some e, fs') \<Rightarrow> (Some e, fs')
      | (None, fs') \<Rightarrow>
          modifyGoMod fs' dst
            (\<lambda>goModFN gomod.
               case addDirect Rel Dir goModFN mods gomod of
                 Inl e \<Rightarrow> Inl e
               | Inr gomod' \<Rightarrow> addIndirect mods gomod'))"

section \<open>Collecting the overrides of a workspace\<close>

text \<open>
  The entries of a manifest that the engine does not own are its propagation
  candidates. One failing read or parse ends the collection with the error and no map.
  A manifest without a module directive has \<open>gomod.Module == nil\<close>, and reading its
  path is a nil dereference.
\<close>

fun collectReplacements_loop ::
  "(string \<Rightarrow> string) \<Rightarrow> FS \<Rightarrow> (string \<times> Package) list \<Rightarrow> (string \<rightharpoonup> goModule) \<Rightarrow>
   error + (string \<rightharpoonup> goModule)" where
  "collectReplacements_loop Dir fs [] mods = Inr mods"
| "collectReplacements_loop Dir fs ((n, p) # ps) mods =
     (if Type p \<noteq> GoPackage then collectReplacements_loop Dir fs ps mods
      else
        (case findGoMod (Sources p) of
           None \<Rightarrow> collectReplacements_loop Dir fs ps mods
         | Some goModFn \<Rightarrow>
             (case fs goModFn of
                None \<Rightarrow> Inl ReadError
              | Some fc \<Rightarrow>
                  (case Parse fc of
                     Inl e \<Rightarrow> Inl e
                   | Inr gomod \<Rightarrow>
                       (case Module gomod of
                          None \<Rightarrow> Inl NilPointerDereference
                        | Some path \<Rightarrow>
                            collectReplacements_loop Dir fs ps
                              (mods(n \<mapsto>
                                 \<lparr>Name = path, OriginPath = Dir goModFn, OriginPackage = n,
                                  Replacements =
                                    filter (\<lambda>rep. \<not> fst (isBlazedockReplace (Syntax rep)))
                                      (Replace gomod)\<rparr>)))))))"

definition collectReplacements ::
  "(string \<Rightarrow> string) \<Rightarrow> FS \<Rightarrow> Workspace \<Rightarrow> error + (string \<rightharpoonup> goModule)" where
  "collectReplacements Dir fs workspace =
     collectReplacements_loop Dir fs (Packages workspace) Map.empty"

section \<open>Linking the modules of a workspace\<close>

text \<open>
  The modules of the Go dependencies that the registry knows; a dependency it does not
  know is skipped (the source logs a warning there).
\<close>

fun resolveDeps :: "(string \<rightharpoonup> goModule) \<Rightarrow> Package list \<Rightarrow> goModule list" where
  "resolveDeps mods [] = []"
| "resolveDeps mods (dep # deps) =
     (if Type dep \<noteq> GoPackage then resolveDeps mods deps
      else
        (case mods (FullName dep) of
           None \<Rightarrow> resolveDeps mods deps
         | Some m \<Rightarrow> m # resolveDeps mods deps))"

text \<open>
  \<open>sort.Slice\<close> orders the modules by name; it is not stable, and the model's
  \<open>sort_key\<close> fixes the order of modules of equal name that Go leaves open.
\<close>

fun LinkGoModules_loop ::
  "(string \<Rightarrow> string \<Rightarrow> error + string) \<Rightarrow> (string \<Rightarrow> string) \<Rightarrow>
   (string \<rightharpoonup> goModule) \<Rightarrow> Package option \<Rightarrow> (string \<times> Package) list \<Rightarrow> FS \<Rightarrow>
   error option \<times> FS" where
  "LinkGoModules_loop Rel Dir mods target [] fs = (None, fs)"
| "LinkGoModules_loop Rel Dir mods target ((n, p) # ps) fs =
     (if Type p \<noteq> GoPackage then LinkGoModules_loop Rel Dir mods target ps fs
      else if (case target of None \<Rightarrow> False | Some t \<Rightarrow> FullName p \<noteq> FullName t) then
        LinkGoModules_loop Rel Dir mods target ps fs
      else
        (case linkGoModule Rel Dir fs p
                (sort_key Name (resolveDeps mods (GetTransitiveDependencies p))) of
           (Some e, fs') \<Rightarrow> (Some e, fs')
         | (None, fs') \<Rightarrow> LinkGoModules_loop Rel Dir mods target ps fs'))"

definition LinkGoModules ::
  "(string \<Rightarrow> string \<Rightarrow> error + string) \<Rightarrow> (string \<Rightarrow> string) \<Rightarrow>
   FS \<Rightarrow> Workspace \<Rightarrow> Package option \<Rightarrow> error option \<times> FS" where
  "LinkGoModules Rel Dir fs workspace target =
     (case collectReplacements Dir fs workspace of
        Inl e \<Rightarrow> (Some e, fs)
      | Inr mods \<Rightarrow> LinkGoModules_loop Rel Dir mods target (Packages workspace) fs)"

section \<open>Synchronising the workspace manifest\<close>

text \<open>
  \<open>filepath.Join\<close> of a directory and a file name, for directories written without a
  trailing separator.
\<close>

definition filepath_Join :: "string \<Rightarrow> string \<Rightarrow> string" where
  "filepath_Join d n = (if d = [] then n else d @ ''/'' @ n)"

fun dropBlazedockUses :: "nat list \<Rightarrow> WorkFile \<Rightarrow> error + WorkFile" where
  "dropBlazedockUses [] workFile = Inr workFile"
| "dropBlazedockUses (i # is) workFile =
     (let use = Use workFile ! i in
      if fst (isBlazedockReplace (UseSyntax use)) then
        (case DropUse workFile (UsePath use) of
           Inl e \<Rightarrow> Inl e
         | Inr workFile' \<Rightarrow> dropBlazedockUses is workFile')
      else dropBlazedockUses is workFile)"

text \<open>
  The directory of every Go package, relative to the workspace (the keys of the
  source's \<open>goModules\<close>), and \<open>sortedPaths\<close>, the keys in ascending order.
\<close>

definition goModules :: "Workspace \<Rightarrow> string list" where
  "goModules workspace =
     map (\<lambda>(n, pkg). TrimPrefix (TrimPrefix (C_Origin pkg) (Origin workspace)) ''/'')
       (filter (\<lambda>(n, pkg). Type pkg = GoPackage) (Packages workspace))"

definition sortedPaths :: "Workspace \<Rightarrow> string list" where
  "sortedPaths workspace = sort (remdups (goModules workspace))"

definition addUses :: "string list \<Rightarrow> WorkFile \<Rightarrow> WorkFile" where
  "addUses pths workFile = fold (\<lambda>pth w. AddNewUse w pth []) pths workFile"

definition markUse :: "string list \<Rightarrow> Use \<Rightarrow> Use" where
  "markUse mods use =
     (if UsePath use \<in> set mods then
        (case UseSyntax use of
           None \<Rightarrow> use
         | Some l \<Rightarrow> use\<lparr>UseSyntax := Some (l\<lparr>InBlock := True, Suffix := [''// blazedock'']\<rparr>)\<rparr>)
      else use)"

fun removeAll_loop :: "FS \<Rightarrow> (string \<times> Package) list \<Rightarrow> error option \<times> FS" where
  "removeAll_loop fs [] = (None, fs)"
| "removeAll_loop fs ((n, p) # ps) =
     (if Type p \<noteq> GoPackage then removeAll_loop fs ps
      else
        (case removeBlazedockReplaceRules fs p of
           (Some e, fs') \<Rightarrow> (Some e, fs')
         | (None, fs') \<Rightarrow> removeAll_loop fs' ps))"

definition LinkGoWorkspace :: "FS \<Rightarrow> Workspace \<Rightarrow> error option \<times> FS" where
  "LinkGoWorkspace fs workspace =
     (let workFN = filepath_Join (Origin workspace) ''go.work'' in
      case fs workFN of
        None \<Rightarrow> (Some NotAGoWorkspace, fs)
      | Some fc \<Rightarrow>
          (case ParseWork fc of
             Inl e \<Rightarrow> (Some e, fs)
           | Inr workFile \<Rightarrow>
               (case dropBlazedockUses [0 ..< length (Use workFile)] workFile of
                  Inl e \<Rightarrow> (Some e, fs)
                | Inr workFile1 \<Rightarrow>
                    (let workFile2 = addUses (sortedPaths workspace) workFile1;
                         workFile3 =
                           workFile2\<lparr>Use := map (markUse (goModules workspace)) (Use workFile2)\<rparr>
                     in removeAll_loop (fs(workFN \<mapsto> FormatWork workFile3))
                          (Packages workspace)))))"




definition pathEntries :: "string \<Rightarrow> Replace list \<Rightarrow> Replace list" where
  "pathEntries n rs = filter (\<lambda>x. Path (Old x) = n) rs"


definition tokensAgree :: "Replace list \<Rightarrow> bool" where
  "tokensAgree rs =
     list_all (\<lambda>x. case Syntax x of None \<Rightarrow> True
                    | Some l \<Rightarrow> Path (fst (Token l)) = Path (Old x)) rs"

definition pathLines :: "string \<Rightarrow> (Version \<times> Version) Line list \<Rightarrow> (Version \<times> Version) Line list" where
  "pathLines n ls = filter (\<lambda>l. Path (fst (Token l)) = n) ls"

text \<open>
  For stating that a dependency without a registry entry is skipped: the modules that
  \<open>LinkGoModules\<close> links a package against, the dependencies of a package without the
  Go packages that the registry does not know, the workspace in which no package has such
  a dependency, and the line that linking writes for a module.
\<close>

definition linkedModules :: "(string \<rightharpoonup> goModule) \<Rightarrow> Package \<Rightarrow> goModule list" where
  "linkedModules mods p = sort_key Name (resolveDeps mods (GetTransitiveDependencies p))"

definition knownDeps :: "(string \<rightharpoonup> goModule) \<Rightarrow> Package list \<Rightarrow> Package list" where
  "knownDeps mods deps =
     filter (\<lambda>dep. Type dep \<noteq> GoPackage \<or> mods (FullName dep) \<noteq> None) deps"

definition withoutMissing :: "(string \<rightharpoonup> goModule) \<Rightarrow> Package \<Rightarrow> Package" where
  "withoutMissing mods p =
     Package (FullName p) (Type p) (C_Origin p) (Sources p)
       (knownDeps mods (GetTransitiveDependencies p))"

definition withoutMissingDeps :: "(string \<rightharpoonup> goModule) \<Rightarrow> Workspace \<Rightarrow> Workspace" where
  "withoutMissingDeps mods workspace =
     workspace\<lparr>Packages := map (\<lambda>(n, p). (n, withoutMissing mods p)) (Packages workspace)\<rparr>"

definition directLine :: "string \<Rightarrow> string \<Rightarrow> (Version \<times> Version) Line" where
  "directLine name relpath =
     \<lparr>Token = (\<lparr>Path = name, Version = []\<rparr>, \<lparr>Path = relpath, Version = []\<rparr>),
      Suffix = [''// blazedock''], InBlock = True\<rparr>"

text \<open>
  For stating what the synchroniser writes: the line it gives a directory, and the paths
  of the lines of a workspace manifest that the classifier reports as owned.
\<close>

definition blazedockUseLine :: "string \<Rightarrow> string Line" where
  "blazedockUseLine pth = \<lparr>Token = pth, Suffix = [''// blazedock''], InBlock = True\<rparr>"

definition ownedUseLine :: "string Line \<Rightarrow> bool" where
  "ownedUseLine l = fst (isBlazedockReplace (Some l))"


section \<open>Example manifests\<close>

text \<open>
  Concrete inputs at which the properties below are evaluated: a replace line without
  versions, a Go package \<open>a:lib\<close> in \<open>/w/a\<close>, and manifests for it.
\<close>

definition replaceLine :: "string \<Rightarrow> string \<Rightarrow> string list \<Rightarrow> (Version \<times> Version) Line" where
  "replaceLine old new cs =
     \<lparr>Token = (\<lparr>Path = old, Version = []\<rparr>, \<lparr>Path = new, Version = []\<rparr>),
      Suffix = cs, InBlock = False\<rparr>"

definition pkgA :: Package where
  "pkgA = Package ''a:lib'' GoPackage ''/w/a'' [''/w/a/main.go'', ''/w/a/go.mod''] []"


definition fsDuplicate :: FS where
  "fsDuplicate =
     [''/w/a/go.mod'' \<mapsto>
        GoModFile (Some ''example.com/a'')
          [replaceLine ''example.com/b'' ''../b'' [''// blazedock''],
           replaceLine ''example.com/b'' ''../fork'' []]]"

text \<open>
  \<open>filepath.Rel\<close> and \<open>filepath.Dir\<close> for the examples, whose directories all lie
  directly under \<open>/w\<close>: the relative path from one to another is \<open>..\<close> and the last
  component, and the directory of a manifest is its name without \<open>/go.mod\<close>.
\<close>

definition siblingRel :: "string \<Rightarrow> string \<Rightarrow> error + string" where
  "siblingRel basepath targpath = Inr (''..'' @ drop 2 targpath)"

definition dirOfGoMod :: "string \<Rightarrow> string" where
  "dirOfGoMod f = take (length f - 7) f"

definition foreignK :: "string \<Rightarrow> Replace" where
  "foreignK new = parseReplaceLine (replaceLine ''example.com/k'' new [])"







definition pkgX :: Package where
  "pkgX = Package ''x:lib'' GoPackage ''/w/x'' [''/w/x/go.mod''] []"

definition pkgP :: Package where
  "pkgP = Package ''p:app'' GoPackage ''/w/p'' [''/w/p/go.mod''] [pkgX]"

definition wsDup :: Workspace where
  "wsDup = \<lparr>Origin = ''/w'', Packages = [(''p:app'', pkgP), (''x:lib'', pkgX)]\<rparr>"

definition fsDup :: FS where
  "fsDup =
     [''/w/p/go.mod'' \<mapsto> GoModFile (Some ''example.com/p'') [],
      ''/w/x/go.mod'' \<mapsto>
        GoModFile (Some ''example.com/x'')
          [replaceLine ''example.com/k'' ''../k'' [''// blazedock''],
           replaceLine ''example.com/k'' ''../fork'' []]]"

definition ownedLine :: "string \<Rightarrow> string \<Rightarrow> string \<Rightarrow> (Version \<times> Version) Line" where
  "ownedLine old new comment = (replaceLine old new [comment])\<lparr>InBlock := True\<rparr>"






text \<open>
  A workspace in which \<open>t:app\<close> depends on \<open>a:lib\<close>, on \<open>b:lib\<close>, whose manifest
  overrides the module of \<open>a:lib\<close>, and on \<open>d:lib\<close>, which has no manifest among its
  sources and so no registry entry.
\<close>

definition pkgB :: Package where
  "pkgB = Package ''b:lib'' GoPackage ''/w/b'' [''/w/b/go.mod''] []"

definition pkgD :: Package where
  "pkgD = Package ''d:lib'' GoPackage ''/w/d'' [''/w/d/main.go''] []"

definition pkgApp :: Package where
  "pkgApp = Package ''t:app'' GoPackage ''/w/t'' [''/w/t/go.mod''] [pkgA, pkgB, pkgD]"

definition wsMissing :: Workspace where
  "wsMissing =
     \<lparr>Origin = ''/w'',
      Packages = [(''t:app'', pkgApp), (''a:lib'', pkgA), (''b:lib'', pkgB), (''d:lib'', pkgD)]\<rparr>"

definition fsMissing :: FS where
  "fsMissing =
     [''/w/t/go.mod'' \<mapsto> GoModFile (Some ''example.com/t'') [],
      ''/w/a/go.mod'' \<mapsto> GoModFile (Some ''example.com/a'') [],
      ''/w/b/go.mod'' \<mapsto>
        GoModFile (Some ''example.com/b'') [replaceLine ''example.com/a'' ''../fork'' []]]"

definition modsMissing :: "string \<rightharpoonup> goModule" where
  "modsMissing =
     [''t:app'' \<mapsto>
        \<lparr>Name = ''example.com/t'', OriginPath = ''/w/t'', OriginPackage = ''t:app'',
         Replacements = []\<rparr>,
      ''a:lib'' \<mapsto>
        \<lparr>Name = ''example.com/a'', OriginPath = ''/w/a'', OriginPackage = ''a:lib'',
         Replacements = []\<rparr>,
      ''b:lib'' \<mapsto>
        \<lparr>Name = ''example.com/b'', OriginPath = ''/w/b'', OriginPackage = ''b:lib'',
         Replacements = [parseReplaceLine (replaceLine ''example.com/a'' ''../fork'' [])]\<rparr>]"

section \<open>Evaluation\<close>

lemma findGoMod_simps:
  "findGoMod [] = None"
  "findGoMod (f # fs) = (if suffix ''go.mod'' f then Some f else findGoMod fs)"
  by (simp_all add: findGoMod_def HasSuffix_def)

lemmas eval_simps =
  removeBlazedockReplaceRules_def modifyGoMod_def findGoMod_simps suffix_to_prefix
  Parse_def parseReplaceLine_def DropReplace_def zeroReplace_def zeroVersion_def Format_def
  List.map_filter_simps Let_def replaceLine_def upt_rec

section \<open>Properties of the classifier\<close>

lemma isBlazedockSuffix_foreign:
  "(\<forall>c \<in> set cs. \<not> Contains c ''blazedock'') \<Longrightarrow> fst (isBlazedockSuffix cs) = False"
  by (induction cs) auto

lemma isBlazedockSuffix_owned:
  "find (\<lambda>c. Contains c ''blazedock'') cs = Some t \<Longrightarrow>
   isBlazedockSuffix cs =
     (True,
      if Contains t '' indirect '' then blazedockReplaceIndirect
      else if Contains t '' ignore '' then blazedockReplaceIgnore
      else blazedockReplaceDirect)"
  by (induction cs) (auto split: if_splits)

lemma isBlazedockSuffix_ok_iff:
  "fst (isBlazedockSuffix cs) \<longleftrightarrow> (\<exists>c \<in> set cs. Contains c ''blazedock'')"
  by (induction cs) auto

text \<open>
  Claim C5. A line none of whose suffix comment tokens contains the marker
  \<open>blazedock\<close> is foreign (not owned), whatever else its comments contain, and so is
  an absent line. When some suffix token contains the marker, the entry is owned and
  its sub-kind is read from the first such token \<open>t\<close>: indirect when \<open>t\<close> contains
  \<open>" indirect "\<close>, otherwise ignore when it contains \<open>" ignore "\<close>, otherwise direct.
\<close>

theorem C5_classifier:
  "fst (isBlazedockReplace None) = False \<and>
   ((\<forall>c \<in> set (Suffix rep). \<not> Contains c ''blazedock'') \<longrightarrow>
      fst (isBlazedockReplace (Some rep)) = False) \<and>
   (find (\<lambda>c. Contains c ''blazedock'') (Suffix rep) = Some t \<longrightarrow>
      isBlazedockReplace (Some rep) =
        (True,
         if Contains t '' indirect '' then blazedockReplaceIndirect
         else if Contains t '' ignore '' then blazedockReplaceIgnore
         else blazedockReplaceDirect))"
  by (simp add: isBlazedockSuffix_foreign isBlazedockSuffix_owned)

theorem C5_classifier_witness:
  "\<not> Contains ''// indirect ignore '' ''blazedock'' \<and>
   fst (isBlazedockReplace
         (Some \<lparr>Token = (), Suffix = [''// indirect ignore ''], InBlock = False\<rparr>)) = False \<and>
   find (\<lambda>c. Contains c ''blazedock'') [''// note'', ''// blazedock indirect from a:b'']
     = Some ''// blazedock indirect from a:b'' \<and>
   isBlazedockReplace
     (Some \<lparr>Token = (), Suffix = [''// note'', ''// blazedock indirect from a:b''],
            InBlock = False\<rparr>)
     = (True, blazedockReplaceIndirect)"
proof -
  have a: "\<forall>c \<in> set [''// indirect ignore '']. \<not> Contains c ''blazedock''"
    by simp
  have b: "find (\<lambda>c. Contains c ''blazedock'') [''// note'', ''// blazedock indirect from a:b'']
             = Some ''// blazedock indirect from a:b''"
    by simp
  have c: "Contains ''// blazedock indirect from a:b'' '' indirect ''"
    by simp
  from a
    C5_classifier [of "\<lparr>Token = (), Suffix = [''// indirect ignore ''], InBlock = False\<rparr>" t]
  have d: "fst (isBlazedockReplace
             (Some \<lparr>Token = (), Suffix = [''// indirect ignore ''], InBlock = False\<rparr>)) = False"
    by simp
  from b c
    C5_classifier [of "\<lparr>Token = (), Suffix = [''// note'', ''// blazedock indirect from a:b''],
                       InBlock = False\<rparr>" "''// blazedock indirect from a:b''"]
  have e: "isBlazedockReplace
     (Some \<lparr>Token = (), Suffix = [''// note'', ''// blazedock indirect from a:b''],
            InBlock = False\<rparr>)
     = (True, blazedockReplaceIndirect)"
    by simp
  have a': "\<not> Contains ''// indirect ignore '' ''blazedock''"
    by simp
  from a' b d e show ?thesis by blast
qed

section \<open>Properties of the collector\<close>

lemma collectReplacements_loop_fail:
  "(n, p) \<in> set ps \<Longrightarrow> Type p = GoPackage \<Longrightarrow> findGoMod (Sources p) = Some goModFn \<Longrightarrow>
   (case fs goModFn of None \<Rightarrow> True | Some fc \<Rightarrow> isl (Parse fc)) \<Longrightarrow>
   \<exists>e. collectReplacements_loop Dir fs ps mods = Inl e"
proof (induction ps arbitrary: mods)
  case Nil
  then show ?case by simp
next
  case (Cons np ps)
  obtain n' p' where np: "np = (n', p')" by (cases np)
  show ?case
  proof (cases "n = n' \<and> p = p'")
    case True
    with Cons.prems np show ?thesis
      by (auto split: option.splits sum.splits simp: isl_def)
  next
    case False
    with Cons.prems np have "(n, p) \<in> set ps" by auto
    from Cons.IH [OF this Cons.prems(2-4)] np show ?thesis
      by (auto split: option.splits sum.splits)
  qed
qed

text \<open>
  Claim C8. If the manifest of some Go package of the workspace (the first of its sources
  named \<open>go.mod\<close>) cannot be read or cannot be parsed, \<open>collectReplacements\<close> returns
  an error and no registry, whatever it collected from the packages before, and
  \<open>LinkGoModules\<close> returns that error with every file as it was.
\<close>

theorem C8_collect_all_or_nothing:
  "(n, p) \<in> set (Packages workspace) \<Longrightarrow> Type p = GoPackage \<Longrightarrow>
   findGoMod (Sources p) = Some goModFn \<Longrightarrow>
   (case fs goModFn of None \<Rightarrow> True | Some fc \<Rightarrow> isl (Parse fc)) \<Longrightarrow>
   \<exists>e. collectReplacements Dir fs workspace = Inl e \<and>
       LinkGoModules Rel Dir fs workspace target = (Some e, fs)"
proof -
  assume a: "(n, p) \<in> set (Packages workspace)" "Type p = GoPackage"
    "findGoMod (Sources p) = Some goModFn"
    "case fs goModFn of None \<Rightarrow> True | Some fc \<Rightarrow> isl (Parse fc)"
  from collectReplacements_loop_fail [of n p "Packages workspace" goModFn fs Dir Map.empty] a
  obtain e where "collectReplacements Dir fs workspace = Inl e"
    unfolding collectReplacements_def by blast
  then show ?thesis by (simp add: LinkGoModules_def)
qed

section \<open>Properties of the workspace synchroniser\<close>

text \<open>
  Claim C7. When there is no \<open>go.work\<close> in the origin directory of the workspace,
  \<open>LinkGoWorkspace\<close> returns an error and the file system is the one it was given: no
  file is written or changed.
\<close>

theorem C7_no_workspace_manifest:
  "fs (filepath_Join (Origin workspace) ''go.work'') = None \<Longrightarrow>
   LinkGoWorkspace fs workspace = (Some NotAGoWorkspace, fs)"
  by (simp add: LinkGoWorkspace_def)


theorem C7_no_workspace_manifest_witness:
  "LinkGoWorkspace Map.empty \<lparr>Origin = ''/w'', Packages = []\<rparr> = (Some NotAGoWorkspace, Map.empty)"
  using C7_no_workspace_manifest [of Map.empty "\<lparr>Origin = ''/w'', Packages = []\<rparr>"]
  by simp

theorem C8_collect_all_or_nothing_witness:
  "collectReplacements (\<lambda>f. ''/w/a'')
     [''/w/a/go.mod'' \<mapsto> GoModFile (Some ''example.com/a'') [], ''/w/b/go.mod'' \<mapsto> Unparsable]
     \<lparr>Origin = ''/w'',
      Packages = [(''a:lib'', Package ''a:lib'' GoPackage ''/w/a'' [''/w/a/go.mod''] []),
                  (''b:lib'', Package ''b:lib'' GoPackage ''/w/b'' [''/w/b/go.mod''] [])]\<rparr>
   = Inl ParseError \<and>
   LinkGoModules (\<lambda>a b. Inr b) (\<lambda>f. ''/w/a'')
     [''/w/a/go.mod'' \<mapsto> GoModFile (Some ''example.com/a'') [], ''/w/b/go.mod'' \<mapsto> Unparsable]
     \<lparr>Origin = ''/w'',
      Packages = [(''a:lib'', Package ''a:lib'' GoPackage ''/w/a'' [''/w/a/go.mod''] []),
                  (''b:lib'', Package ''b:lib'' GoPackage ''/w/b'' [''/w/b/go.mod''] [])]\<rparr>
     None
   = (Some ParseError,
      [''/w/a/go.mod'' \<mapsto> GoModFile (Some ''example.com/a'') [], ''/w/b/go.mod'' \<mapsto> Unparsable])"
proof -
  let ?fs = "[''/w/a/go.mod'' \<mapsto> GoModFile (Some ''example.com/a'') [],
              ''/w/b/go.mod'' \<mapsto> Unparsable]"
  let ?b = "Package ''b:lib'' GoPackage ''/w/b'' [''/w/b/go.mod''] []"
  let ?ws = "\<lparr>Origin = ''/w'',
      Packages = [(''a:lib'', Package ''a:lib'' GoPackage ''/w/a'' [''/w/a/go.mod''] []),
                  (''b:lib'', ?b)]\<rparr>"
  have 1: "(''b:lib'', ?b) \<in> set (Packages ?ws)" by simp
  have 2: "Type ?b = GoPackage" by simp
  have 3: "findGoMod (Sources ?b) = Some ''/w/b/go.mod''"
    by (simp add: findGoMod_simps suffix_to_prefix)
  have 4: "case ?fs ''/w/b/go.mod'' of None \<Rightarrow> True | Some fc \<Rightarrow> isl (Parse fc)"
    by (simp add: Parse_def)
  from C8_collect_all_or_nothing [of "''b:lib''" ?b ?ws "''/w/b/go.mod''" ?fs "\<lambda>f. ''/w/a''"
      "\<lambda>a b. Inr b" None, OF 1 2 3 4]
  obtain e where e: "collectReplacements (\<lambda>f. ''/w/a'') ?fs ?ws = Inl e"
    "LinkGoModules (\<lambda>a b. Inr b) (\<lambda>f. ''/w/a'') ?fs ?ws None = (Some e, ?fs)"
    by blast
  have "collectReplacements (\<lambda>f. ''/w/a'') ?fs ?ws = Inl ParseError"
    by (simp add: collectReplacements_def findGoMod_simps suffix_to_prefix Parse_def)
  with e show ?thesis by simp
qed

section \<open>Properties of teardown\<close>

lemma ownedNotIgnore_None [simp]: "\<not> ownedNotIgnore None"
  by (simp add: ownedNotIgnore_def)

lemma ownedNotIgnore_zero [simp]: "\<not> ownedNotIgnore (Syntax zeroReplace)"
  by (simp add: zeroReplace_def)












text \<open>
  Claim C2 at a manifest that holds an owned entry and a foreign entry for the same key:
  the foreign entry is classified as foreign, and teardown, which drops by key, removes it
  together with the owned one; the written manifest has no replace line left.
\<close>

theorem C2_teardown_removes_foreign:
  "fst (isBlazedockReplace (Some (replaceLine ''example.com/b'' ''../fork'' []))) = False \<and>
   removeBlazedockReplaceRules fsDuplicate pkgA =
     (None, [''/w/a/go.mod'' \<mapsto> GoModFile (Some ''example.com/a'') []])"
  by (simp add: fsDuplicate_def pkgA_def eval_simps)

section \<open>Linking at concrete workspaces\<close>

lemmas link_simps =
  linkGoModule_def addReplace_def AddReplace_def foreignK_def siblingRel_def dirOfGoMod_def
  ownedLine_def







lemmas LinkGoModules_simps =
  LinkGoModules_def collectReplacements_def pkgP_def pkgX_def wsDup_def

lemma run1_fsDup:
  "LinkGoModules siblingRel dirOfGoMod fsDup wsDup None =
   (None,
    [''/w/p/go.mod'' \<mapsto>
       GoModFile (Some ''example.com/p'')
         [ownedLine ''example.com/x'' ''../x'' ''// blazedock'',
          ownedLine ''example.com/k'' ''../fork'' ''// blazedock indirect from x:lib''],
     ''/w/x/go.mod'' \<mapsto> GoModFile (Some ''example.com/x'') []])"
  by (simp add: fsDup_def LinkGoModules_simps eval_simps link_simps)

lemma run2_fsDup:
  "LinkGoModules siblingRel dirOfGoMod
     [''/w/p/go.mod'' \<mapsto>
       GoModFile (Some ''example.com/p'')
         [ownedLine ''example.com/x'' ''../x'' ''// blazedock'',
          ownedLine ''example.com/k'' ''../fork'' ''// blazedock indirect from x:lib''],
     ''/w/x/go.mod'' \<mapsto> GoModFile (Some ''example.com/x'') []]
     wsDup None =
   (None,
    [''/w/p/go.mod'' \<mapsto>
       GoModFile (Some ''example.com/p'')
         [ownedLine ''example.com/x'' ''../x'' ''// blazedock''],
     ''/w/x/go.mod'' \<mapsto> GoModFile (Some ''example.com/x'') []])"
  by (simp add: LinkGoModules_simps eval_simps link_simps)

text \<open>
  Claim C4 at a workspace in which the manifest of \<open>x:lib\<close> holds an owned and a foreign
  entry for the same key, and \<open>p:app\<close> depends on \<open>x:lib\<close>. The first unscoped run links
  \<open>p:app\<close> with the foreign override of \<open>x:lib\<close> replayed, and its teardown of
  \<open>x:lib\<close> removes that foreign override; the second run, on the files the first left,
  succeeds as well and writes a different manifest for \<open>p:app\<close>.
\<close>

theorem C4_second_run_differs:
  "fst (LinkGoModules siblingRel dirOfGoMod fsDup wsDup None) = None \<and>
   fst (LinkGoModules siblingRel dirOfGoMod
          (snd (LinkGoModules siblingRel dirOfGoMod fsDup wsDup None)) wsDup None) = None \<and>
   snd (LinkGoModules siblingRel dirOfGoMod fsDup wsDup None) ''/w/p/go.mod'' =
     Some (GoModFile (Some ''example.com/p'')
         [ownedLine ''example.com/x'' ''../x'' ''// blazedock'',
          ownedLine ''example.com/k'' ''../fork'' ''// blazedock indirect from x:lib'']) \<and>
   snd (LinkGoModules siblingRel dirOfGoMod
          (snd (LinkGoModules siblingRel dirOfGoMod fsDup wsDup None)) wsDup None)
       ''/w/p/go.mod'' =
     Some (GoModFile (Some ''example.com/p'')
         [ownedLine ''example.com/x'' ''../x'' ''// blazedock''])"
  by (simp add: run1_fsDup run2_fsDup)

section \<open>Properties of the workspace synchroniser, continued\<close>



lemma not_owned_zeroUse [simp]: "\<not> fst (isBlazedockReplace (UseSyntax zeroUse))"
  by (simp add: zeroUse_def)













lemma owned_blazedockUseLine [simp]: "ownedUseLine (blazedockUseLine pth)"
  by (simp add: ownedUseLine_def blazedockUseLine_def)

lemma Token_blazedockUseLine [simp]: "Token (blazedockUseLine pth) = pth"
  by (simp add: blazedockUseLine_def)


lemma filter_owned_block [simp]:
  "filter ownedUseLine (map blazedockUseLine pths) = map blazedockUseLine pths"
  by (induction pths) simp_all











section \<open>What one operation does to the entries of a module path\<close>

lemma Version_eq_iff: "(a::Version) = b \<longleftrightarrow> Path a = Path b \<and> Version a = Version b"
  by (cases a, cases b) auto

lemma Version_eta [simp]: "\<lparr>Path = Path v, Version = Version v\<rparr> = (v::Version)"
  by (cases v) simp

lemma Path_zeroReplace [simp]: "Path (Old zeroReplace) = []"
  by (simp add: zeroReplace_def zeroVersion_def)

lemma Syntax_zeroReplace [simp]: "Syntax zeroReplace = None"
  by (simp add: zeroReplace_def)

lemma pathEntries_append [simp]:
  "pathEntries n (xs @ ys) = pathEntries n xs @ pathEntries n ys"
  by (simp add: pathEntries_def)

lemma pathEntries_Nil_iff: "pathEntries n rs = [] \<longleftrightarrow> (\<forall>x \<in> set rs. Path (Old x) \<noteq> n)"
  by (auto simp: pathEntries_def filter_empty_conv)


subsection \<open>DropReplace\<close>

lemma DropReplace_Inr:
  "DropReplace f p v = Inr f' \<Longrightarrow>
   Module f' = Module f \<and>
   Replace f' =
     map (\<lambda>r. if Old r = \<lparr>Path = p, Version = v\<rparr> then zeroReplace else r) (Replace f)"
  by (auto simp: DropReplace_def Version_eq_iff split: if_splits)


lemma pathEntries_dropped_other:
  "n \<noteq> [] \<Longrightarrow> Path k \<noteq> n \<Longrightarrow>
   pathEntries n (map (\<lambda>r. if Old r = k then zeroReplace else r) rs) = pathEntries n rs"
  by (induction rs) (auto simp: pathEntries_def)


lemma tokensAgree_dropped:
  "tokensAgree rs \<Longrightarrow> tokensAgree (map (\<lambda>r. if Old r = k then zeroReplace else r) rs)"
  by (induction rs) (auto simp: tokensAgree_def)

lemma dropped_idem:
  "map (\<lambda>r. if Old r = k then zeroReplace else r)
     (map (\<lambda>r. if Old r = k then zeroReplace else r) rs) =
   map (\<lambda>r. if Old r = k then zeroReplace else r) rs"
  by (induction rs) auto

subsection \<open>The first loop of addReplace\<close>

lemma dropExisting_Inr:
  "dropExisting old is f = Inr f' \<Longrightarrow>
   Module f' = Module f \<and>
   (Replace f' = Replace f \<or>
    Replace f' = map (\<lambda>r. if Old r = old then zeroReplace else r) (Replace f))"
proof (induction "is" arbitrary: f)
  case Nil
  then show ?case by simp
next
  case (Cons i "is")
  let ?rep = "Replace f ! i"
  show ?case
  proof (cases "Old ?rep = old")
    case False
    with Cons.prems have "dropExisting old is f = Inr f'"
      by (auto simp: Let_def Version_eq_iff)
    from Cons.IH [OF this] show ?thesis .
  next
    case True
    with Cons.prems obtain g where
      g: "DropReplace f (Path old) (Version old) = Inr g"
      and rec: "dropExisting old is g = Inr f'"
      by (auto simp: Let_def split: prod.splits if_splits sum.splits)
    from DropReplace_Inr [OF g] have
      gg: "Module g = Module f"
        "Replace g = map (\<lambda>r. if Old r = old then zeroReplace else r) (Replace f)"
      by simp_all
    from Cons.IH [OF rec] gg show ?thesis
      by (auto simp: dropped_idem)
  qed
qed



subsection \<open>AddReplace\<close>

lemma AddReplace_loop_frame:
  "AddReplace_loop old new need rs = Inr (rs', need') \<Longrightarrow> Path old \<noteq> n \<Longrightarrow> n \<noteq> [] \<Longrightarrow>
   pathEntries n rs' = pathEntries n rs"
proof (induction rs arbitrary: need rs' need')
  case Nil
  then show ?case by simp
next
  case (Cons r rs)
  show ?case
  proof (cases "Path (Old r) = Path old \<and> (Version old = [] \<or> Version (Old r) = Version old)")
    case True
    with Cons.prems(1) obtain l rs2 where
      l: "Syntax r = Some l"
      and rec: "AddReplace_loop old new False rs = Inr (rs2, need')"
      and res: "rs' = (if need then r\<lparr>New := new, Syntax := Some (l\<lparr>Token := (old, new)\<rparr>)\<rparr>
                       else zeroReplace) # rs2"
      by (auto split: option.splits sum.splits)
    from Cons.IH [OF rec Cons.prems(2,3)] True Cons.prems(2,3) res show ?thesis
      by (auto simp: pathEntries_def)
  next
    case False
    with Cons.prems(1) obtain rs2 where
      rec: "AddReplace_loop old new need rs = Inr (rs2, need')" and res: "rs' = r # rs2"
      by (auto split: sum.splits)
    from Cons.IH [OF rec Cons.prems(2,3)] res show ?thesis
      by (simp add: pathEntries_def)
  qed
qed

lemma AddReplace_loop_prefix:
  "\<forall>x \<in> set pre. Path (Old x) \<noteq> Path old \<Longrightarrow>
   AddReplace_loop old new need (pre @ rest) =
     (case AddReplace_loop old new need rest of
        Inl e \<Rightarrow> Inl e
      | Inr (rs', need') \<Rightarrow> Inr (pre @ rs', need'))"
  by (induction pre) (auto split: sum.splits)

lemma AddReplace_loop_nomatch:
  "\<forall>x \<in> set rs. Path (Old x) \<noteq> Path old \<Longrightarrow> AddReplace_loop old new need rs = Inr (rs, need)"
  using AddReplace_loop_prefix [of rs old new need "[]"] by simp

lemma ownedNotIgnore_Token [simp]:
  "ownedNotIgnore (Some (l\<lparr>Token := t\<rparr>)) = ownedNotIgnore (Some l)"
  by (simp add: ownedNotIgnore_def)


lemma AddReplace_loop_tokensAgree:
  "AddReplace_loop old new need rs = Inr (rs', need') \<Longrightarrow> tokensAgree rs \<Longrightarrow> tokensAgree rs'"
proof (induction rs arbitrary: need rs' need')
  case Nil
  then show ?case by simp
next
  case (Cons r rs)
  show ?case
  proof (cases "Path (Old r) = Path old \<and> (Version old = [] \<or> Version (Old r) = Version old)")
    case True
    with Cons.prems(1) obtain l rs2 where
      l: "Syntax r = Some l"
      and rec: "AddReplace_loop old new False rs = Inr (rs2, need')"
      and res: "rs' = (if need then r\<lparr>New := new, Syntax := Some (l\<lparr>Token := (old, new)\<rparr>)\<rparr>
                       else zeroReplace) # rs2"
      by (auto split: option.splits sum.splits)
    from Cons.prems(2) have "tokensAgree rs" by (simp add: tokensAgree_def)
    from Cons.IH [OF rec this] True res show ?thesis
      by (auto simp: tokensAgree_def)
  next
    case False
    with Cons.prems(1) obtain rs2 where
      rec: "AddReplace_loop old new need rs = Inr (rs2, need')" and res: "rs' = r # rs2"
      by (auto split: sum.splits)
    from Cons.prems(2) have "tokensAgree rs" by (simp add: tokensAgree_def)
    from Cons.IH [OF rec this] res Cons.prems(2) show ?thesis
      by (simp add: tokensAgree_def)
  qed
qed

lemma AddReplace_Inr:
  "AddReplace f (Path old) (Version old) (Path new) (Version new) = Inr f' \<Longrightarrow>
   \<exists>rs need. AddReplace_loop old new True (Replace f) = Inr (rs, need) \<and>
     Module f' = Module f \<and>
     Replace f' =
       (if need then
          rs @ [\<lparr>Old = old, New = new,
                 Syntax = Some \<lparr>Token = (old, new), Suffix = [], InBlock = False\<rparr>\<rparr>]
        else rs)"
proof -
  assume a: "AddReplace f (Path old) (Version old) (Path new) (Version new) = Inr f'"
  show ?thesis
  proof (cases "AddReplace_loop old new True (Replace f)")
    case (Inl e)
    with a show ?thesis by (simp add: AddReplace_def)
  next
    case (Inr p)
    obtain rs need where p: "p = (rs, need)" by (cases p)
    from a Inr p have "f' = f\<lparr>Replace :=
        (if need then
          rs @ [\<lparr>Old = old, New = new,
                 Syntax = Some \<lparr>Token = (old, new), Suffix = [], InBlock = False\<rparr>\<rparr>]
        else rs)\<rparr>"
      by (simp add: AddReplace_def)
    with Inr p show ?thesis by simp
  qed
qed


lemma tokensAgree_append [simp]:
  "tokensAgree (rs @ xs) \<longleftrightarrow> tokensAgree rs \<and> tokensAgree xs"
  by (simp add: tokensAgree_def)

subsection \<open>The last loop of addReplace\<close>

lemma setComment_Inr:
  "setComment old c rs = Inr rs' \<Longrightarrow>
   rs' =
     map (\<lambda>x. if Old x = old
               then x\<lparr>Syntax := Some ((the (Syntax x))\<lparr>InBlock := True, Suffix := [c]\<rparr>)\<rparr>
               else x) rs \<and>
   (\<forall>x \<in> set rs. Old x = old \<longrightarrow> Syntax x \<noteq> None)"
proof (induction rs arbitrary: rs')
  case Nil
  then show ?case by simp
next
  case (Cons r rs)
  show ?case
  proof (cases "Old r = old")
    case True
    with Cons.prems obtain l rs2 where
      "Syntax r = Some l" "setComment old c rs = Inr rs2"
      "rs' = r\<lparr>Syntax := Some (l\<lparr>InBlock := True, Suffix := [c]\<rparr>)\<rparr> # rs2"
      by (auto split: option.splits sum.splits)
    with Cons.IH [of rs2] True show ?thesis by simp
  next
    case False
    with Cons.prems obtain rs2 where
      "setComment old c rs = Inr rs2" "rs' = r # rs2"
      by (auto simp: Version_eq_iff split: sum.splits)
    with Cons.IH [of rs2] False show ?thesis by simp
  qed
qed

lemma pathEntries_map_same_Old:
  "(\<And>x. Old (h x) = Old x) \<Longrightarrow> pathEntries n (map h rs) = map h (pathEntries n rs)"
  by (induction rs) (simp_all add: pathEntries_def)

lemma setComment_frame:
  assumes "setComment old c rs = Inr rs'" "Path old \<noteq> n"
  shows "pathEntries n rs' = pathEntries n rs"
proof -
  let ?h = "\<lambda>x. if Old x = old
               then x\<lparr>Syntax := Some ((the (Syntax x))\<lparr>InBlock := True, Suffix := [c]\<rparr>)\<rparr>
               else x"
  from setComment_Inr [OF assms(1)] have rs': "rs' = map ?h rs" by simp
  have "pathEntries n (map ?h rs) = map ?h (pathEntries n rs)"
    by (rule pathEntries_map_same_Old) simp
  also have "\<dots> = pathEntries n rs"
    using assms(2) by (intro map_idI) (auto simp: pathEntries_def)
  finally show ?thesis using rs' by simp
qed


lemma setComment_tokensAgree:
  assumes "setComment old c rs = Inr rs'" "tokensAgree rs"
  shows "tokensAgree rs'"
proof -
  from setComment_Inr [OF assms(1)] have
    rs': "rs' = map (\<lambda>x. if Old x = old
               then x\<lparr>Syntax := Some ((the (Syntax x))\<lparr>InBlock := True, Suffix := [c]\<rparr>)\<rparr>
               else x) rs"
    and some: "\<forall>x \<in> set rs. Old x = old \<longrightarrow> Syntax x \<noteq> None"
    by simp_all
  from assms(2) some show ?thesis unfolding rs' tokensAgree_def
    by (induction rs) auto
qed

subsection \<open>addReplace\<close>

lemma addReplace_Inr:
  assumes "addReplace f old new direct source = Inr f'"
  shows "\<exists>f1 f2 rs.
           dropExisting old [0 ..< length (Replace f)] f = Inr f1 \<and>
           AddReplace f1 (Path old) (Version old) (Path new) (Version new) = Inr f2 \<and>
           setComment old
             (if direct then ''// blazedock'' else ''// blazedock'' @ '' indirect from '' @ source)
             (Replace f2) = Inr rs \<and>
           f' = f2\<lparr>Replace := rs\<rparr>"
proof -
  from assms obtain f1 where 1: "dropExisting old [0 ..< length (Replace f)] f = Inr f1"
    by (cases "dropExisting old [0 ..< length (Replace f)] f") (simp_all add: addReplace_def)
  from assms 1 obtain f2 where
    2: "AddReplace f1 (Path old) (Version old) (Path new) (Version new) = Inr f2"
    by (cases "AddReplace f1 (Path old) (Version old) (Path new) (Version new)")
       (simp_all add: addReplace_def)
  let ?c = "if direct then ''// blazedock'' else ''// blazedock'' @ '' indirect from '' @ source"
  from assms 1 2 obtain rs where 3: "setComment old ?c (Replace f2) = Inr rs"
    by (cases "setComment old ?c (Replace f2)") (simp_all add: addReplace_def Let_def)
  from assms 1 2 3 have "f' = f2\<lparr>Replace := rs\<rparr>"
    by (simp add: addReplace_def Let_def)
  with 1 2 3 show ?thesis by blast
qed

lemma addReplace_Module:
  assumes "addReplace f old new direct source = Inr f'"
  shows "Module f' = Module f"
proof -
  from addReplace_Inr [OF assms] obtain f1 f2 rs where
    1: "dropExisting old [0 ..< length (Replace f)] f = Inr f1"
    and 2: "AddReplace f1 (Path old) (Version old) (Path new) (Version new) = Inr f2"
    and 4: "f' = f2\<lparr>Replace := rs\<rparr>"
    by blast
  from dropExisting_Inr [OF 1] AddReplace_Inr [OF 2] 4 show ?thesis by auto
qed

lemma addReplace_frame:
  assumes run: "addReplace f old new direct source = Inr f'"
    and ne: "Path old \<noteq> n" and n: "n \<noteq> []"
  shows "pathEntries n (Replace f') = pathEntries n (Replace f)"
proof -
  from addReplace_Inr [OF run] obtain f1 f2 rs c where
    1: "dropExisting old [0 ..< length (Replace f)] f = Inr f1"
    and 2: "AddReplace f1 (Path old) (Version old) (Path new) (Version new) = Inr f2"
    and 3: "setComment old c (Replace f2) = Inr rs"
    and 4: "f' = f2\<lparr>Replace := rs\<rparr>"
    by blast
  from dropExisting_Inr [OF 1] ne n have a: "pathEntries n (Replace f1) = pathEntries n (Replace f)"
    by (auto simp: pathEntries_dropped_other)
  from AddReplace_Inr [OF 2] obtain rs1 need where
    l: "AddReplace_loop old new True (Replace f1) = Inr (rs1, need)"
    and r2: "Replace f2 =
       (if need then
          rs1 @ [\<lparr>Old = old, New = new,
                 Syntax = Some \<lparr>Token = (old, new), Suffix = [], InBlock = False\<rparr>\<rparr>]
        else rs1)"
    by blast
  from AddReplace_loop_frame [OF l ne n] r2 ne
  have b: "pathEntries n (Replace f2) = pathEntries n (Replace f1)"
    by (simp add: pathEntries_def)
  from setComment_frame [OF 3 ne] a b 4 show ?thesis by simp
qed


lemma addReplace_tokensAgree:
  assumes run: "addReplace f old new direct source = Inr f'"
    and t: "tokensAgree (Replace f)"
  shows "tokensAgree (Replace f')"
proof -
  from addReplace_Inr [OF run] obtain f1 f2 rs c where
    1: "dropExisting old [0 ..< length (Replace f)] f = Inr f1"
    and 2: "AddReplace f1 (Path old) (Version old) (Path new) (Version new) = Inr f2"
    and 3: "setComment old c (Replace f2) = Inr rs"
    and 4: "f' = f2\<lparr>Replace := rs\<rparr>"
    by blast
  from dropExisting_Inr [OF 1] t have a: "tokensAgree (Replace f1)"
    by (auto simp: tokensAgree_dropped)
  from AddReplace_Inr [OF 2] obtain rs1 need where
    l: "AddReplace_loop old new True (Replace f1) = Inr (rs1, need)"
    and r2: "Replace f2 =
       (if need then
          rs1 @ [\<lparr>Old = old, New = new,
                 Syntax = Some \<lparr>Token = (old, new), Suffix = [], InBlock = False\<rparr>\<rparr>]
        else rs1)"
    by blast
  from AddReplace_loop_tokensAgree [OF l a] r2 have b: "tokensAgree (Replace f2)"
    by (simp add: tokensAgree_def)
  from setComment_tokensAgree [OF 3 b] 4 show ?thesis by simp
qed

lemma dropped_none:
  "\<forall>x \<in> set rs. Old x \<noteq> k \<Longrightarrow> map (\<lambda>r. if Old r = k then zeroReplace else r) rs = rs"
  by (induction rs) auto

lemma addReplace_fresh:
  assumes run: "addReplace f old new True source = Inr f'"
    and none: "pathEntries (Path old) (Replace f) = []"
  shows "pathEntries (Path old) (Replace f') =
           [\<lparr>Old = old, New = new,
             Syntax = Some \<lparr>Token = (old, new), Suffix = [''// blazedock''], InBlock = True\<rparr>\<rparr>]"
proof -
  from addReplace_Inr [OF run] obtain f1 f2 rs where
    1: "dropExisting old [0 ..< length (Replace f)] f = Inr f1"
    and 2: "AddReplace f1 (Path old) (Version old) (Path new) (Version new) = Inr f2"
    and 3: "setComment old ''// blazedock'' (Replace f2) = Inr rs"
    and 4: "f' = f2\<lparr>Replace := rs\<rparr>"
    by auto
  from none have np: "\<forall>x \<in> set (Replace f). Path (Old x) \<noteq> Path old"
    by (simp add: pathEntries_Nil_iff)
  then have no: "\<forall>x \<in> set (Replace f). Old x \<noteq> old" by auto
  from dropExisting_Inr [OF 1] no have a: "Replace f1 = Replace f"
    by (auto simp: dropped_none)
  from AddReplace_Inr [OF 2] obtain rs1 need where
    l: "AddReplace_loop old new True (Replace f1) = Inr (rs1, need)"
    and r2: "Replace f2 =
       (if need then
          rs1 @ [\<lparr>Old = old, New = new,
                 Syntax = Some \<lparr>Token = (old, new), Suffix = [], InBlock = False\<rparr>\<rparr>]
        else rs1)"
    by blast
  from l a AddReplace_loop_nomatch [OF np, of new True] have "rs1 = Replace f" "need" by simp_all
  with r2 have b: "Replace f2 =
      Replace f @ [\<lparr>Old = old, New = new,
                 Syntax = Some \<lparr>Token = (old, new), Suffix = [], InBlock = False\<rparr>\<rparr>]"
    by simp
  from setComment_Inr [OF 3] b no have
    "rs = Replace f @ [\<lparr>Old = old, New = new,
             Syntax = Some \<lparr>Token = (old, new), Suffix = [''// blazedock''], InBlock = True\<rparr>\<rparr>]"
    by (simp add: map_idI)
  with 4 none show ?thesis by (simp add: pathEntries_def)
qed

section \<open>Invariants of the linking loops\<close>





section \<open>Conflicts\<close>


lemma Syntax_parseReplaceLine [simp]: "Syntax (parseReplaceLine l) = Some l"
  by (simp add: parseReplaceLine_def)

lemma Old_parseReplaceLine [simp]: "Old (parseReplaceLine l) = fst (Token l)"
  by (simp add: parseReplaceLine_def)





lemma linkGoModule_error_state:
  "fst (linkGoModule Rel Dir fs dst mods) = Some e \<Longrightarrow>
   snd (linkGoModule Rel Dir fs dst mods) = snd (removeBlazedockReplaceRules fs dst)"
  by (cases "removeBlazedockReplaceRules fs dst")
     (auto simp: linkGoModule_def modifyGoMod_def split: option.splits sum.splits)



end
